theory Spec2Isabelle
  imports Main "HOL-Library.Char_ord" "HOL-Library.List_Lexorder"
begin

section \<open>Strings\<close>

text \<open>
  Python strings are modelled as \<open>string\<close> (lists of 8-bit characters). The extract files are
  decoded as latin1, so every character of a cell is one \<open>char\<close>; file names are taken to
  consist of such characters too.

  \<open>str.upper\<close> on the first 256 code points: the letters a to z and the letters 0xE0 to 0xFE
  (without the division sign 0xF7) become their capitals, 32 code points lower, and the sharp s
  0xDF becomes the two letters SS. The capitals of the micro sign 0xB5 and of the y with
  diaeresis 0xFF lie beyond 255; these two characters are kept as they are, which changes no
  test for the letters O, B and S.
\<close>

definition small_letters :: string where
  "small_letters = ''abcdefghijklmnopqrstuvwxyz'' @ [
        CHR 0xE0, CHR 0xE1, CHR 0xE2, CHR 0xE3, CHR 0xE4, CHR 0xE5, CHR 0xE6, CHR 0xE7,
        CHR 0xE8, CHR 0xE9, CHR 0xEA, CHR 0xEB, CHR 0xEC, CHR 0xED, CHR 0xEE, CHR 0xEF,
        CHR 0xF0, CHR 0xF1, CHR 0xF2, CHR 0xF3, CHR 0xF4, CHR 0xF5, CHR 0xF6, CHR 0xF8,
        CHR 0xF9, CHR 0xFA, CHR 0xFB, CHR 0xFC, CHR 0xFD, CHR 0xFE]"

definition capital_letters :: string where
  "capital_letters = ''ABCDEFGHIJKLMNOPQRSTUVWXYZ'' @ [
        CHR 0xC0, CHR 0xC1, CHR 0xC2, CHR 0xC3, CHR 0xC4, CHR 0xC5, CHR 0xC6, CHR 0xC7,
        CHR 0xC8, CHR 0xC9, CHR 0xCA, CHR 0xCB, CHR 0xCC, CHR 0xCD, CHR 0xCE, CHR 0xCF,
        CHR 0xD0, CHR 0xD1, CHR 0xD2, CHR 0xD3, CHR 0xD4, CHR 0xD5, CHR 0xD6, CHR 0xD8,
        CHR 0xD9, CHR 0xDA, CHR 0xDB, CHR 0xDC, CHR 0xDD, CHR 0xDE]"

definition upper_char :: "char \<Rightarrow> string" where
  "upper_char c =
     (if c = CHR 0xDF then ''SS''
      else (case map_of (zip small_letters capital_letters) c of
              None \<Rightarrow> [c]
            | Some u \<Rightarrow> [u]))"

text \<open>
  \<open>str.lower\<close> is modelled on the letters A to Z; it is only applied to the text of an
  exception, which is searched for patterns of ASCII letters.
\<close>

definition lower_char :: "char \<Rightarrow> char" where
  "lower_char c =
     (case map_of (zip ''ABCDEFGHIJKLMNOPQRSTUVWXYZ'' ''abcdefghijklmnopqrstuvwxyz'') c of
        None \<Rightarrow> c
      | Some l \<Rightarrow> l)"

definition upper :: "string \<Rightarrow> string" where
  "upper s = concat (map upper_char s)"

definition lower :: "string \<Rightarrow> string" where
  "lower s = map lower_char s"

text \<open>\<open>sub in s\<close> on Python strings: \<open>sub\<close> occurs in \<open>s\<close> as a contiguous run.\<close>

fun contains :: "string \<Rightarrow> string \<Rightarrow> bool" where
  "contains sub [] = (sub = [])"
| "contains sub (c # cs) = (take (length sub) (c # cs) = sub \<or> contains sub cs)"

text \<open>\<open>s.endswith(ext)\<close>.\<close>

definition endswith :: "string \<Rightarrow> string \<Rightarrow> bool" where
  "endswith s ext = (take (length ext) (rev s) = rev ext)"

text \<open>
  \<open>str.strip()\<close>: the characters Python counts as whitespace among the first 256 code points
  (tab, line feed, vertical tab, form feed, carriage return, the separators 28 to 31, space,
  next line 133 and no-break space 160) are removed from both ends.
\<close>

definition is_space :: "char \<Rightarrow> bool" where
  "is_space c = (of_char c \<in> {9, 10, 11, 12, 13, 28, 29, 30, 31, 32, 133, 160 :: nat})"

definition strip :: "string \<Rightarrow> string" where
  "strip s = rev (dropWhile is_space (rev (dropWhile is_space s)))"

section \<open>Data frames\<close>

text \<open>
  Every file is read with \<open>dtype=str\<close>: a cell is a string, or NaN for an empty field.
  \<open>None\<close> is NaN. A row gives the cell under each column label; a label that is not a
  column of the frame has no cell, which reads as \<open>None\<close>. A frame is the ordered list of
  its column labels and the ordered list of its rows.
\<close>

type_synonym cell = "string option"

type_synonym row = "string \<Rightarrow> cell"

record frame =
  columns :: "string list"
  rows :: "row list"

text \<open>\<open>pd.DataFrame()\<close>\<close>

definition empty_frame :: frame where
  "empty_frame = \<lparr>columns = [], rows = []\<rparr>"

text \<open>\<open>df.empty\<close>: one of the two axes has length 0.\<close>

definition is_empty :: "frame \<Rightarrow> bool" where
  "is_empty df = (rows df = [] \<or> columns df = [])"

text \<open>\<open>df[c] = v\<close> for a scalar \<open>v\<close>: an existing column is overwritten, a new one is appended.\<close>

definition set_column :: "string \<Rightarrow> cell \<Rightarrow> frame \<Rightarrow> frame" where
  "set_column c v df =
     \<lparr>columns = (if c \<in> set (columns df) then columns df else columns df @ [c]),
      rows = map (\<lambda>r. r(c := v)) (rows df)\<rparr>"

text \<open>\<open>df.drop(columns=[c], inplace=True)\<close> for a label \<open>c\<close> of the frame.\<close>

definition drop_column :: "string \<Rightarrow> frame \<Rightarrow> frame" where
  "drop_column c df =
     \<lparr>columns = filter (\<lambda>x. x \<noteq> c) (columns df),
      rows = map (\<lambda>r. r(c := None)) (rows df)\<rparr>"

text \<open>
  \<open>df[cs]\<close> for a list of labels that are all columns of \<open>df\<close>: the columns in the order of
  \<open>cs\<close>. (The merger only calls it with the labels of \<open>merged_df\<close> after it has added each of
  them to \<open>df\<close>.)
\<close>

definition select_columns :: "string list \<Rightarrow> frame \<Rightarrow> frame" where
  "select_columns cs df = \<lparr>columns = cs, rows = rows df\<rparr>"

text \<open>
  \<open>pd.concat([a, b], ignore_index=True)\<close>: the labels of \<open>a\<close>, then those of \<open>b\<close> that \<open>a\<close>
  does not have; the rows of \<open>a\<close>, then the rows of \<open>b\<close>.
\<close>

definition concat_frames :: "frame \<Rightarrow> frame \<Rightarrow> frame" where
  "concat_frames a b =
     \<lparr>columns = columns a @ filter (\<lambda>c. c \<notin> set (columns a)) (columns b),
      rows = rows a @ rows b\<rparr>"

section \<open>CategoryMerger: \<open>process_csv_files_for_bank\<close>\<close>

text \<open>
  What \<open>pd.read_csv(file_path, sep=";", encoding="latin1", dtype=str)\<close> does for one file name
  of the directory: it returns a frame, or raises an exception, of which the merger only
  reads the message \<open>str(e)\<close>.
\<close>

datatype read_outcome = ReadOk frame | ReadRaises string

text \<open>The bank's entry of \<open>summary_report\<close>, as far as the merger writes it.\<close>

record summary =
  merged :: "string list"
  missing :: "string list"
  errors :: "string list"

text \<open>
  Lines 85 to 89, on the frame read from the file. The result is the exception's message, or
  the category label with the file's frame after the label column is set and the third
  column dropped.
  \<^item> an empty frame raises \<open>ValueError("Bank does not have category types (no data)")\<close>;
  \<^item> \<open>df.iloc[0, 2]\<close> on a frame of fewer than three columns raises an IndexError, with numpy's
    message for the size (one or two columns; a frame with no column is empty);
  \<^item> \<open>.strip()\<close> on NaN, a float, raises an AttributeError.
\<close>

definition float_strip_message :: string where
  "float_strip_message =
     [CHR 0x27] @ ''float'' @ [CHR 0x27] @ '' object has no attribute ''
       @ [CHR 0x27] @ ''strip'' @ [CHR 0x27]"

definition label_file :: "frame \<Rightarrow> string + (string \<times> frame)" where
  "label_file df =
     (if is_empty df then Inl ''Bank does not have category types (no data)''
      else if length (columns df) < 3
        then Inl (''index 2 is out of bounds for axis 0 with size ''
                   @ [''0123456789'' ! length (columns df)])
      else (case hd (rows df) (columns df ! 2) of
              None \<Rightarrow> Inl float_strip_message
            | Some v \<Rightarrow>
                (let category_value = strip v;
                     df1 = set_column category_value (Some ''J'') df;
                     df2 = drop_column (columns df1 ! 2) df1
                 in Inr (category_value, df2))))"

text \<open>The two loops of lines 90 to 95: each side gets the columns only the other has, as "N".\<close>

definition add_missing_columns :: "string list \<Rightarrow> frame \<Rightarrow> frame" where
  "add_missing_columns cs df =
     foldl (\<lambda>d col. if col \<notin> set (columns d) then set_column col (Some ''N'') d else d) df cs"

text \<open>Lines 90 to 97.\<close>

definition merge_file :: "frame \<Rightarrow> frame \<Rightarrow> frame" where
  "merge_file merged_df df =
     (let df1 = add_missing_columns (columns merged_df) df;
          merged1 = add_missing_columns (columns df1) merged_df;
          df2 = (if \<not> is_empty merged1 then select_columns (columns merged1) df1 else df1)
      in concat_frames merged1 df2)"

text \<open>The test of line 102 on \<open>str(e).lower()\<close>.\<close>

definition is_no_data :: "string \<Rightarrow> bool" where
  "is_no_data msg =
     (let error_text = lower msg
      in list_ex (\<lambda>m. contains m error_text)
           [''no columns to parse'', ''out of bounds'', ''no data''])"

text \<open>The \<open>except\<close> branch, lines 100 to 107.\<close>

definition record_failure :: "string \<Rightarrow> string \<Rightarrow> summary \<Rightarrow> summary" where
  "record_failure filename msg s =
     (if is_no_data msg then s\<lparr>missing := missing s @ [filename]\<rparr>
      else s\<lparr>errors := errors s @ [filename]\<rparr>)"

text \<open>One turn of the loop over \<open>file_list\<close>, on the running table and the bank's summary.\<close>

definition process_file ::
  "(string \<Rightarrow> read_outcome) \<Rightarrow> frame \<times> summary \<Rightarrow> string \<Rightarrow> frame \<times> summary" where
  "process_file read_csv st filename =
     (case read_csv filename of
        ReadRaises msg \<Rightarrow> (fst st, record_failure filename msg (snd st))
      | ReadOk df \<Rightarrow>
          (case label_file df of
             Inl msg \<Rightarrow> (fst st, record_failure filename msg (snd st))
           | Inr (category_value, df') \<Rightarrow>
               (merge_file (fst st) df',
                (snd st)\<lparr>merged := merged (snd st) @ [category_value]\<rparr>)))"

definition process_csv_files_for_bank ::
  "(string \<Rightarrow> read_outcome) \<Rightarrow> string list \<Rightarrow> summary \<Rightarrow> frame \<times> summary" where
  "process_csv_files_for_bank read_csv file_list s =
     foldl (process_file read_csv) (empty_frame, s) file_list"




section \<open>DuplicateReconciler: \<open>merge_grouped_duplicates\<close>\<close>

datatype error =
    KeyError string
  | IndexError
  | StopIteration
  | BankFileInconsistency string string

text \<open>\<open>s.dropna()\<close> on the cells of a column, and \<open>group[col]\<close> on a list of rows.\<close>

definition dropna :: "cell list \<Rightarrow> cell list" where
  "dropna vs = filter (\<lambda>v. v \<noteq> None) vs"

definition column_of :: "string \<Rightarrow> row list \<Rightarrow> cell list" where
  "column_of col rs = map (\<lambda>r. r col) rs"

text \<open>
  \<open>identify_dynamic_columns\<close>. A frame of more than 100 rows is sampled by
  \<open>df.sample(n=100, random_state=42)\<close>; the rows numpy's generator picks are not modelled, so
  the sampling is the parameter \<open>sample_rows\<close>, from the rows of the frame to the sampled rows.
\<close>

definition identify_dynamic_columns :: "(row list \<Rightarrow> row list) \<Rightarrow> frame \<Rightarrow> string list" where
  "identify_dynamic_columns sample_rows df =
     (let sample = (if length (rows df) \<le> 100 then rows df else sample_rows (rows df))
      in filter
           (\<lambda>col. list_all (\<lambda>v. v \<in> {Some ''J'', Some ''N'', Some []})
                    (dropna (column_of col sample)))
           (columns df))"

text \<open>The body of the first loop of \<open>merge_group\<close> (line 121), for one column.\<close>

definition merge_dynamic :: "row list \<Rightarrow> row \<Rightarrow> string \<Rightarrow> row" where
  "merge_dynamic grp base col =
     base(col := Some (if list_ex (\<lambda>v. v = Some ''J'') (column_of col grp)
                       then ''J'' else ''N''))"

text \<open>The body of the second loop (lines 123 and 124), for one column.\<close>

definition merge_fixed :: "row list \<Rightarrow> row \<Rightarrow> string \<Rightarrow> row" where
  "merge_fixed grp base col =
     (case dropna (column_of col grp) of
        [] \<Rightarrow> base
      | v # _ \<Rightarrow> base(col := v))"

text \<open>\<open>merge_group\<close>: \<open>group.iloc[0]\<close> raises an IndexError on a group without rows.\<close>

fun merge_group :: "string list \<Rightarrow> string list \<Rightarrow> row list \<Rightarrow> error + row" where
  "merge_group dynamic_cols fixed_cols [] = Inl IndexError"
| "merge_group dynamic_cols fixed_cols (r # rs) =
     Inr (foldl (merge_fixed (r # rs)) (foldl (merge_dynamic (r # rs)) r dynamic_cols) fixed_cols)"

text \<open>The keys of \<open>groupby(key_column)\<close>: the distinct keys that are not NaN, in ascending order.\<close>

definition group_keys :: "string \<Rightarrow> row list \<Rightarrow> string list" where
  "group_keys key_column rs = sort (remdups (List.map_filter (\<lambda>r. r key_column) rs))"

text \<open>The rows of one group, in the order of the sorted frame.\<close>

definition group_rows :: "string \<Rightarrow> row list \<Rightarrow> string \<Rightarrow> row list" where
  "group_rows key_column rs k = filter (\<lambda>r. r key_column = Some k) rs"

text \<open>
  \<open>df_sorted.groupby(key_column, ...).apply(merge_group)\<close>: each key with the result of
  \<open>merge_group\<close> on its group. \<open>sort_values\<close> is \<open>df.sort_values(by=key_column)\<close> on the rows:
  pandas sorts with numpy's quicksort, which does not fix the order of rows with equal keys,
  so the sort is a parameter. The model follows pandas 2, for which the script was written:
  \<open>apply\<close> passes the rows of a group with the key column to \<open>merge_group\<close>.
\<close>

definition apply_groups ::
  "(row list \<Rightarrow> row list) \<Rightarrow> (row list \<Rightarrow> row list) \<Rightarrow> frame \<Rightarrow> string
     \<Rightarrow> (string \<times> (error + row)) list" where
  "apply_groups sample_rows sort_values df key_column =
     (let dynamic_cols = identify_dynamic_columns sample_rows df;
          fixed_cols = filter (\<lambda>col. col \<notin> set dynamic_cols) (columns df);
          df_sorted = sort_values (rows df)
      in map (\<lambda>k. (k, merge_group dynamic_cols fixed_cols (group_rows key_column df_sorted k)))
           (group_keys key_column df_sorted))"

text \<open>The first exception among the results, or all the values.\<close>

fun collect :: "(error + 'a) list \<Rightarrow> error + 'a list" where
  "collect [] = Inr []"
| "collect (Inl e # xs) = Inl e"
| "collect (Inr x # xs) = (case collect xs of Inl e \<Rightarrow> Inl e | Inr ys \<Rightarrow> Inr (x # ys))"

text \<open>
  \<open>merge_grouped_duplicates\<close>: \<open>sort_values\<close> raises a KeyError when the frame has no key
  column; the result has the columns of the frame and one row for each group.
\<close>

definition merge_grouped_duplicates ::
  "(row list \<Rightarrow> row list) \<Rightarrow> (row list \<Rightarrow> row list) \<Rightarrow> frame \<Rightarrow> string \<Rightarrow> error + frame" where
  "merge_grouped_duplicates sample_rows sort_values df key_column =
     (if key_column \<notin> set (columns df) then Inl (KeyError key_column)
      else (case collect (map snd (apply_groups sample_rows sort_values df key_column)) of
              Inl e \<Rightarrow> Inl e
            | Inr rs \<Rightarrow> Inr \<lparr>columns = columns df, rows = rs\<rparr>))"

text \<open>
  The row \<open>merge_group\<close> returns for a group that has rows, and the rows of the result of
  \<open>merge_grouped_duplicates\<close>, one for each key; the lemmas on the reconciler are stated with
  them.
\<close>

definition merged_row :: "string list \<Rightarrow> string list \<Rightarrow> row list \<Rightarrow> row" where
  "merged_row dynamic_cols fixed_cols grp =
     foldl (merge_fixed grp) (foldl (merge_dynamic grp) (hd grp) dynamic_cols) fixed_cols"

definition reconciled_row ::
  "(row list \<Rightarrow> row list) \<Rightarrow> (row list \<Rightarrow> row list) \<Rightarrow> frame \<Rightarrow> string \<Rightarrow> string \<Rightarrow> row" where
  "reconciled_row sample_rows sort_values df key_column k =
     merged_row (identify_dynamic_columns sample_rows df)
       (filter (\<lambda>col. col \<notin> set (identify_dynamic_columns sample_rows df)) (columns df))
       (group_rows key_column (sort_values (rows df)) k)"

section \<open>DatasetSummarizer: \<open>summarize_dataset\<close>\<close>

text \<open>
  The entry \<open>stats\<close> that \<open>summarize_dataset\<close> writes. The column \<open>Category_Count\<close> it appends to
  the table holds numbers and is kept here as the list \<open>category_count\<close>, one number for each row.
\<close>

record stats =
  total_rows :: nat
  total_columns :: nat
  static_cols :: "string list"
  dynamic_cols :: "string list"
  category_count :: "nat list"
  multi_category :: nat

definition summarize_dataset :: "frame \<Rightarrow> stats" where
  "summarize_dataset df =
     (let dynamic = filter
            (\<lambda>col. list_all (\<lambda>v. v \<in> {Some ''J'', Some ''N''}) (dropna (column_of col (rows df))))
            (columns df);
          static = filter (\<lambda>col. col \<notin> set dynamic) (columns df);
          counts = map (\<lambda>r. length (filter (\<lambda>col. r col = Some ''J'') dynamic)) (rows df)
      in \<lparr>total_rows = length (rows df),
          total_columns = length (columns df),
          static_cols = static,
          dynamic_cols = dynamic,
          category_count = counts,
          multi_category = length (filter (\<lambda>n. 1 < n) counts)\<rparr>)"

section \<open>Enricher: \<open>enrich_with_pac_data\<close>\<close>

text \<open>
  A row of the PAC export, read with \<open>dtype=str\<close>; the export is taken to have the five columns
  the enricher reads.
\<close>

record pac_row =
  BANK_ID :: cell
  FORETAKSNR :: cell
  PERSONNR :: cell
  AVTALE_ID :: cell
  BRUKERTYPE :: cell

text \<open>\<open>astype(str)\<close> and string formatting of a cell: NaN becomes the text "nan".\<close>

definition astype_str :: "cell \<Rightarrow> string" where
  "astype_str v = (case v of None \<Rightarrow> ''nan'' | Some s \<Rightarrow> s)"

text \<open>\<open>str.zfill(width)\<close>: zeros on the left, after a leading sign.\<close>

definition zfill :: "nat \<Rightarrow> string \<Rightarrow> string" where
  "zfill width s =
     (if width \<le> length s then s
      else (case s of
              [] \<Rightarrow> replicate width CHR ''0''
            | c # cs \<Rightarrow>
                if c = CHR ''+'' \<or> c = CHR ''-''
                then c # replicate (width - length s) CHR ''0'' @ cs
                else replicate (width - length s) CHR ''0'' @ s))"

text \<open>\<open>sep.join(xs)\<close>.\<close>

fun join :: "string \<Rightarrow> string list \<Rightarrow> string" where
  "join sep [] = []"
| "join sep [x] = x"
| "join sep (x # y # ys) = x @ sep @ join sep (y # ys)"

text \<open>\<open>df[c] = s\<close> for a series \<open>s\<close> computed row by row.\<close>

definition assign_column :: "string \<Rightarrow> (row \<Rightarrow> cell) \<Rightarrow> frame \<Rightarrow> frame" where
  "assign_column c f df =
     \<lparr>columns = (if c \<in> set (columns df) then columns df else columns df @ [c]),
      rows = map (\<lambda>r. r(c := f r)) (rows df)\<rparr>"

text \<open>Lines 154 to 157: the organization number as text, padded to 11 characters.\<close>

definition foretak_key :: "pac_row \<Rightarrow> string" where
  "foretak_key p = zfill 11 (astype_str (FORETAKSNR p))"

text \<open>Lines 163 to 171: the two dictionaries, as lists of pairs in the order of the groups.\<close>

definition pac_subset :: "string \<Rightarrow> pac_row list \<Rightarrow> pac_row list" where
  "pac_subset bank_id pac_data = filter (\<lambda>p. astype_str (BANK_ID p) = bank_id) pac_data"

definition pac_groups :: "pac_row list \<Rightarrow> (string \<times> pac_row list) list" where
  "pac_groups rws =
     map (\<lambda>k. (k, filter (\<lambda>p. foretak_key p = k) rws)) (sort (remdups (map foretak_key rws)))"

definition avtale_lookup :: "pac_row list \<Rightarrow> (string \<times> string) list" where
  "avtale_lookup rws =
     map (\<lambda>(foretak, grp).
            (foretak, join ''|'' (sort (remdups (map (\<lambda>p. astype_str (AVTALE_ID p)) grp)))))
       (pac_groups rws)"

definition users_lookup :: "pac_row list \<Rightarrow> (string \<times> string) list" where
  "users_lookup rws =
     map (\<lambda>(foretak, grp).
            (foretak,
             join ''|'' (map (\<lambda>p. astype_str (PERSONNR p) @ '':'' @ astype_str (BRUKERTYPE p)) grp)))
       (pac_groups rws)"

text \<open>
  \<open>s.map(d).fillna("")\<close> on one cell: a key of the dictionary gives its value, any other cell
  (NaN too) gives NaN, which \<open>fillna\<close> replaces by the empty string.
\<close>

definition map_fillna :: "(string \<times> string) list \<Rightarrow> cell \<Rightarrow> cell" where
  "map_fillna d v =
     (case v of
        None \<Rightarrow> Some []
      | Some k \<Rightarrow> (case map_of d k of None \<Rightarrow> Some [] | Some x \<Rightarrow> Some x))"

datatype log_event = NoPacData string | EnrichedWithPac string

text \<open>
  \<open>enrich_with_pac_data\<close>, on the rows read from the PAC file: the table, with the line it
  logs. \<open>df["Kundenummer"]\<close> raises a KeyError on a table without that column.
\<close>

definition enrich_with_pac_data ::
  "frame \<Rightarrow> string \<Rightarrow> pac_row list \<Rightarrow> error + (frame \<times> log_event)" where
  "enrich_with_pac_data df bank_id pac_data =
     (if bank_id \<notin> set (map (\<lambda>p. astype_str (BANK_ID p)) pac_data)
      then Inr (df, NoPacData bank_id)
      else if ''Kundenummer'' \<notin> set (columns df) then Inl (KeyError ''Kundenummer'')
      else
        (let rws = pac_subset bank_id pac_data;
             df1 = assign_column ''AVTALE_IDs''
                     (\<lambda>r. map_fillna (avtale_lookup rws) (r ''Kundenummer'')) df;
             df2 = assign_column ''Users_PERSONNR:BRUKERTYPE''
                     (\<lambda>r. map_fillna (users_lookup rws) (r ''Kundenummer'')) df1
         in Inr (df2, EnrichedWithPac bank_id)))"

section \<open>ConsistencyChecker and file selection\<close>

text \<open>
  \<open>bank_file_map\<close> is a dictionary in insertion order: a list of pairs of a bank identifier
  and its file names.
\<close>

type_synonym bank_file_map = "(string \<times> string list) list"

definition is_digit :: "char \<Rightarrow> bool" where
  "is_digit c = (c \<in> set ''0123456789'')"

text \<open>
  \<open>re.sub(r'\.B\d{4}\.', '.B####.', f)\<close>: from left to right, each run of a dot, \<open>B\<close>, four
  digits and a dot is replaced, and the search goes on after the run.
\<close>

fun mask_bank_code :: "string \<Rightarrow> string" where
  "mask_bank_code (a # b # d1 # d2 # d3 # d4 # e # rest) =
     (if a = CHR ''.'' \<and> b = CHR ''B'' \<and> is_digit d1 \<and> is_digit d2 \<and> is_digit d3 \<and> is_digit d4
         \<and> e = CHR ''.''
      then ''.B####.'' @ mask_bank_code rest
      else a # mask_bank_code (b # d1 # d2 # d3 # d4 # e # rest))"
| "mask_bank_code (a # rest) = a # mask_bank_code rest"
| "mask_bank_code [] = []"

text \<open>The set of masked file names of a bank.\<close>

definition shape_keys :: "string list \<Rightarrow> string set" where
  "shape_keys files = set (map mask_bank_code files)"

text \<open>The loop of lines 64 to 72: the first bank whose set differs raises.\<close>

fun check_banks :: "string \<Rightarrow> string set \<Rightarrow> bank_file_map \<Rightarrow> error + unit" where
  "check_banks reference_bank reference_files [] = Inr ()"
| "check_banks reference_bank reference_files ((bank_id, files) # rest) =
     (if shape_keys files \<noteq> reference_files
      then Inl (BankFileInconsistency bank_id reference_bank)
      else check_banks reference_bank reference_files rest)"

text \<open>
  \<open>check_bank_file_consistency\<close>: \<open>next(iter(bank_file_map))\<close> raises StopIteration on a map
  without banks; the reference is the first bank, and the loop runs over all banks, the
  reference too.
\<close>

fun check_bank_file_consistency :: "bank_file_map \<Rightarrow> error + unit" where
  "check_bank_file_consistency [] = Inl StopIteration"
| "check_bank_file_consistency ((reference_bank, reference_files) # rest) =
     check_banks reference_bank (shape_keys reference_files)
       ((reference_bank, reference_files) # rest)"

text \<open>\<open>list_bank_files_by_type\<close>; \<open>bank_file_map.get(bank_id, [])\<close> is the lookup with a default.\<close>

definition list_bank_files_by_type ::
  "bank_file_map \<Rightarrow> string \<Rightarrow> string \<Rightarrow> bool \<Rightarrow> string list" where
  "list_bank_files_by_type bank_file_map bank_id file_ext exclude_obs =
     (let all_files = (case map_of bank_file_map bank_id of None \<Rightarrow> [] | Some fs \<Rightarrow> fs)
      in filter (\<lambda>f. endswith f file_ext \<and> (\<not> exclude_obs \<or> \<not> contains ''OBS'' (upper f)))
           all_files)"

text \<open>
  The file lists of \<open>run_pm_flow\<close> (line 179) and of \<open>run_bm_flow\<close> (line 193): both call
  \<open>list_bank_files_by_type\<close> without \<open>exclude_obs\<close>, whose default is \<open>True\<close>.
\<close>

definition pm_files :: "bank_file_map \<Rightarrow> string \<Rightarrow> string list" where
  "pm_files bank_files bank_id = list_bank_files_by_type bank_files bank_id ''.CSV'' True"

definition bm_files :: "bank_file_map \<Rightarrow> string \<Rightarrow> string list" where
  "bm_files bank_files bank_id = list_bank_files_by_type bank_files bank_id ''.CSV.BM'' True"

section \<open>Concrete inputs\<close>

definition example_bank_files :: bank_file_map where
  "example_bank_files =
     [(''1234'', [''X.B1234.A.CSV'', ''X.B1234.A.CSV.BM'', ''X.B1234.obs.CSV.BM'',
                  ''X.B1234.oB'' @ [CHR 0xDF] @ ''.CSV.BM'']),
      (''5678'', [''X.B5678.A.CSV.BM'', ''X.B5678.A.CSV'', ''X.B5678.obs.CSV.BM'',
                  ''X.B5678.oB'' @ [CHR 0xDF] @ ''.CSV.BM''])]"

definition example_table :: frame where
  "example_table =
     \<lparr>columns = [''Kundenummer'', ''Navn'', ''RETAIL'', ''SAVINGS''],
      rows = [map_of [(''Kundenummer'', ''00000000001''), (''Navn'', ''Ola''),
                      (''RETAIL'', ''J''), (''SAVINGS'', ''J'')],
              map_of [(''Kundenummer'', ''00000000002''), (''Navn'', ''Kari''),
                      (''RETAIL'', ''N''), (''SAVINGS'', ''J'')]]\<rparr>"

definition example_pac_other :: "pac_row list" where
  "example_pac_other =
     [\<lparr>BANK_ID = Some ''1234'', FORETAKSNR = Some ''9'', PERSONNR = Some ''P9'',
       AVTALE_ID = Some ''A9'', BRUKERTYPE = Some ''USER''\<rparr>]"

definition example_pac :: "pac_row list" where
  "example_pac =
     [\<lparr>BANK_ID = Some ''1234'', FORETAKSNR = Some ''1'', PERSONNR = Some ''P1'',
       AVTALE_ID = Some ''A1'', BRUKERTYPE = Some ''ADMIN''\<rparr>]"

text \<open>
  Extract files of bank 1234: category RETAIL with customer 001, category SAVINGS with
  customers 001 and 002, a file with a header line only, a file of category LOAN whose third
  column is headed by the label itself, and a second file of category LOAN.
\<close>

definition file_retail :: frame where
  "file_retail =
     \<lparr>columns = [''Kundenummer'', ''Navn'', ''Kategori''],
      rows = [map_of [(''Kundenummer'', ''001''), (''Navn'', ''Ola''), (''Kategori'', ''RETAIL'')]]\<rparr>"

definition file_savings :: frame where
  "file_savings =
     \<lparr>columns = [''Kundenummer'', ''Navn'', ''Kategori''],
      rows = [map_of [(''Kundenummer'', ''001''), (''Navn'', ''Ola''), (''Kategori'', ''SAVINGS'')],
              map_of [(''Kundenummer'', ''002''), (''Navn'', ''Kari''), (''Kategori'', ''SAVINGS'')]]\<rparr>"

definition file_header_only :: frame where
  "file_header_only = \<lparr>columns = [''Kundenummer'', ''Navn'', ''Kategori''], rows = []\<rparr>"

definition file_loan :: frame where
  "file_loan =
     \<lparr>columns = [''Kundenummer'', ''Navn'', ''LOAN''],
      rows = [map_of [(''Kundenummer'', ''003''), (''Navn'', ''Per''), (''LOAN'', ''LOAN'')]]\<rparr>"

definition file_loan_b :: frame where
  "file_loan_b =
     \<lparr>columns = [''Kundenummer'', ''Navn'', ''Kategori''],
      rows = [map_of [(''Kundenummer'', ''004''), (''Navn'', ''Liv''), (''Kategori'', ''LOAN'')]]\<rparr>"

text \<open>
  A file of category SAVINGS that has an attribute column headed \<open>RETAIL\<close>, and a file of
  category RETAIL with 101 rows of which only the first has a customer number.
\<close>

definition file_savings_attr :: frame where
  "file_savings_attr =
     \<lparr>columns = [''Kundenummer'', ''Navn'', ''Kategori'', ''RETAIL''],
      rows = [map_of [(''Kundenummer'', ''001''), (''Navn'', ''Ola''), (''Kategori'', ''SAVINGS''),
                      (''RETAIL'', ''yes'')]]\<rparr>"

definition file_sparse :: frame where
  "file_sparse =
     \<lparr>columns = [''Kundenummer'', ''Navn'', ''Kategori''],
      rows = map_of [(''Kundenummer'', ''001''), (''Navn'', ''Ola''), (''Kategori'', ''RETAIL'')]
             # replicate 100 (map_of [(''Navn'', ''Anon''), (''Kategori'', ''RETAIL'')])\<rparr>"

definition example_read_csv :: "string \<Rightarrow> read_outcome" where
  "example_read_csv filename =
     (if filename = ''X.B1234.A.CSV'' then ReadOk file_retail
      else if filename = ''X.B1234.B.CSV'' then ReadOk file_savings
      else if filename = ''X.B1234.E.CSV'' then ReadOk file_header_only
      else if filename = ''X.B1234.L.CSV'' then ReadOk file_loan
      else if filename = ''X.B1234.M.CSV'' then ReadOk file_loan_b
      else if filename = ''X.B1234.C.CSV'' then ReadOk file_savings_attr
      else if filename = ''X.B1234.S.CSV'' then ReadOk file_sparse
      else ReadRaises ''[Errno 2] No such file or directory'')"

definition empty_summary :: summary where
  "empty_summary = \<lparr>merged = [], missing = [], errors = []\<rparr>"

text \<open>
  A merged table with the categories RETAIL and SAVINGS, written out row by row, before the
  duplicates are reconciled; the first row of customer 001 has no name.
\<close>

definition example_merged :: frame where
  "example_merged =
     \<lparr>columns = [''Kundenummer'', ''Navn'', ''RETAIL'', ''SAVINGS''],
      rows = [map_of [(''Kundenummer'', ''001''), (''RETAIL'', ''J''), (''SAVINGS'', ''N'')],
              map_of [(''Kundenummer'', ''001''), (''Navn'', ''Ola''),
                      (''RETAIL'', ''N''), (''SAVINGS'', ''J'')],
              map_of [(''Kundenummer'', ''002''), (''Navn'', ''Kari''),
                      (''RETAIL'', ''N''), (''SAVINGS'', ''J'')]]\<rparr>"

section \<open>The duplicate reconciler\<close>


lemma foldl_merge_fixed:
  "foldl (merge_fixed g) b cs col =
     (if col \<in> set cs
      then (case dropna (column_of col g) of [] \<Rightarrow> b col | v # _ \<Rightarrow> v)
      else b col)"
  by (induction cs arbitrary: b) (auto simp: merge_fixed_def split: list.splits)


lemma merged_row_fixed:
  "col \<in> set fixed \<Longrightarrow> dropna (column_of col g) = v # vs \<Longrightarrow> merged_row dyn fixed g col = v"
  by (simp add: merged_row_def foldl_merge_fixed)

lemma merge_group_merged_row:
  "g \<noteq> [] \<Longrightarrow> merge_group dyn fixed g = Inr (merged_row dyn fixed g)"
  by (cases g) (simp_all add: merged_row_def)

lemma collect_all_Inr:
  "(\<And>x. x \<in> set xs \<Longrightarrow> f x = Inr (g x)) \<Longrightarrow> collect (map f xs) = Inr (map g xs)"
  by (induction xs) simp_all

lemma set_group_keys:
  "set (group_keys key_column rs) = {k. \<exists>r \<in> set rs. r key_column = Some k}"
  by (force simp: group_keys_def map_filter_def image_iff)


lemma group_rows_nonempty:
  "k \<in> set (group_keys key_column rs) \<Longrightarrow> group_rows key_column rs k \<noteq> []"
  by (auto simp: set_group_keys group_rows_def filter_empty_conv)


text \<open>On a frame with the key column the reconciler returns a table, one row for each key.\<close>

lemma merge_grouped_duplicates_rows:
  assumes "key_column \<in> set (columns df)"
  shows "merge_grouped_duplicates sample_rows sort_values df key_column
     = Inr \<lparr>columns = columns df,
            rows = map (reconciled_row sample_rows sort_values df key_column)
                     (group_keys key_column (sort_values (rows df)))\<rparr>"
proof -
  have "collect (map snd (apply_groups sample_rows sort_values df key_column))
      = Inr (map (reconciled_row sample_rows sort_values df key_column)
               (group_keys key_column (sort_values (rows df))))"
    unfolding apply_groups_def Let_def map_map comp_def snd_conv
    by (rule collect_all_Inr)
      (simp add: reconciled_row_def merge_group_merged_row group_rows_nonempty)
  then show ?thesis using assms by (simp add: merge_grouped_duplicates_def)
qed





text \<open>
  A table of at most 100 rows is not sampled: if its key column is taken for a flag column
  and no key is the empty string, every key is "J" or "N".
\<close>

lemma small_table_key_column:
  assumes "length (rows df) \<le> 100"
    and "key_column \<in> set (identify_dynamic_columns sample_rows df)"
    and "r \<in> set (rows df)" and "r key_column \<noteq> Some []"
  shows "r key_column \<in> {None, Some ''J'', Some ''N''}"
  using assms
  by (auto simp: identify_dynamic_columns_def list_all_iff dropna_def column_of_def)


lemma example_merged_dynamic:
  "identify_dynamic_columns (\<lambda>rs. rs) example_merged = [''RETAIL'', ''SAVINGS'']"
  by (simp add: identify_dynamic_columns_def example_merged_def dropna_def column_of_def)

lemma example_merged_keys:
  "group_keys ''Kundenummer'' (rows example_merged) = [''001'', ''002'']"
  by (simp add: group_keys_def example_merged_def map_filter_def)



lemma dropna_first:
  "dropna vs = v # ws \<Longrightarrow> \<exists>pre post. vs = pre @ v # post \<and> (\<forall>x \<in> set pre. x = None) \<and> v \<noteq> None"
  unfolding dropna_def filter_eq_Cons_iff by auto

text \<open>
  C4: the row of the result at the place of a group has, in each fixed column where a row of
  the group has a value, the first value of the group that is not NaN, in the order the sorted
  table gives the rows of the group: the cells of the group before it in that column are all
  NaN, so the value is a cell of the group and is not NaN. An empty field is NaN in a table
  read with \<open>dtype=str\<close>.
\<close>

theorem reconciler_fixed_first_value:
  assumes "key_column \<in> set (columns df)"
    and "col \<in> set (columns df)"
    and "col \<notin> set (identify_dynamic_columns sample_rows df)"
    and "i < length (group_keys key_column (sort_values (rows df)))"
    and "\<exists>v \<in> set (column_of col (group_rows key_column (sort_values (rows df))
                       (group_keys key_column (sort_values (rows df)) ! i))). v \<noteq> None"
  shows "\<exists>out pre v post.
      merge_grouped_duplicates sample_rows sort_values df key_column = Inr out
      \<and> length (rows out) = length (group_keys key_column (sort_values (rows df)))
      \<and> column_of col (group_rows key_column (sort_values (rows df))
                       (group_keys key_column (sort_values (rows df)) ! i)) = pre @ v # post
      \<and> (\<forall>x \<in> set pre. x = None)
      \<and> v \<noteq> None
      \<and> (rows out ! i) col = v"
proof -
  let ?keys = "group_keys key_column (sort_values (rows df))"
  let ?F = "reconciled_row sample_rows sort_values df key_column"
  let ?out = "\<lparr>columns = columns df, rows = map ?F ?keys\<rparr>"
  let ?dyn = "identify_dynamic_columns sample_rows df"
  let ?fixed = "filter (\<lambda>col. col \<notin> set ?dyn) (columns df)"
  let ?g = "group_rows key_column (sort_values (rows df)) (?keys ! i)"
  have res: "merge_grouped_duplicates sample_rows sort_values df key_column = Inr ?out"
    using assms(1) by (rule merge_grouped_duplicates_rows)
  have "dropna (column_of col ?g) \<noteq> []"
    using assms(5) by (auto simp: dropna_def filter_empty_conv)
  then obtain v ws where d: "dropna (column_of col ?g) = v # ws"
    by (cases "dropna (column_of col ?g)") auto
  then obtain pre post where p: "column_of col ?g = pre @ v # post"
      "\<forall>x \<in> set pre. x = None" "v \<noteq> None"
    using dropna_first by blast
  have "col \<in> set ?fixed" using assms(2,3) by simp
  from merged_row_fixed [OF this d] have "?F (?keys ! i) col = v"
    by (simp add: reconciled_row_def)
  then have "(rows ?out ! i) col = v" using assms(4) by simp
  with res p show ?thesis
    by (intro exI [of _ ?out] exI [of _ pre] exI [of _ v] exI [of _ post]) simp
qed

theorem reconciler_fixed_first_value_witness:
  "''Kundenummer'' \<in> set (columns example_merged)
   \<and> ''Navn'' \<in> set (columns example_merged)
   \<and> ''Navn'' \<notin> set (identify_dynamic_columns (\<lambda>rs. rs) example_merged)
   \<and> group_keys ''Kundenummer'' (rows example_merged) ! 0 = ''001''
   \<and> column_of ''Navn'' (group_rows ''Kundenummer'' (rows example_merged) ''001'')
       = [None, Some ''Ola'']
   \<and> (\<exists>out. merge_grouped_duplicates (\<lambda>rs. rs) (\<lambda>rs. rs) example_merged ''Kundenummer'' = Inr out
        \<and> length (rows out) = 2
        \<and> (rows out ! 0) ''Navn'' = Some ''Ola'')"
proof -
  have 1: "''Kundenummer'' \<in> set (columns example_merged)"
    and 2: "''Navn'' \<in> set (columns example_merged)"
    by (simp_all add: example_merged_def)
  have 3: "''Navn'' \<notin> set (identify_dynamic_columns (\<lambda>rs. rs) example_merged)"
    by (simp add: example_merged_dynamic)
  have 4: "0 < length (group_keys ''Kundenummer'' (rows example_merged))"
    and k: "group_keys ''Kundenummer'' (rows example_merged) ! 0 = ''001''"
    by (simp_all add: example_merged_keys)
  have c: "column_of ''Navn'' (group_rows ''Kundenummer'' (rows example_merged) ''001'')
       = [None, Some ''Ola'']"
    by (simp add: column_of_def group_rows_def example_merged_def)
  have 5: "\<exists>v \<in> set (column_of ''Navn'' (group_rows ''Kundenummer'' (rows example_merged)
                       (group_keys ''Kundenummer'' (rows example_merged) ! 0))). v \<noteq> None"
    by (simp add: k c)
  from reconciler_fixed_first_value [of "''Kundenummer''" example_merged "''Navn''" "\<lambda>rs. rs" 0
      "\<lambda>rs. rs"] 1 2 3 4 5
  obtain out pre v post where out:
    "merge_grouped_duplicates (\<lambda>rs. rs) (\<lambda>rs. rs) example_merged ''Kundenummer'' = Inr out"
    "length (rows out) = length (group_keys ''Kundenummer'' (rows example_merged))"
    "column_of ''Navn'' (group_rows ''Kundenummer'' (rows example_merged)
        (group_keys ''Kundenummer'' (rows example_merged) ! 0)) = pre @ v # post"
    "\<forall>x \<in> set pre. x = None" "v \<noteq> None"
    "(rows out ! 0) ''Navn'' = v"
    by blast
  have "[None, Some ''Ola''] = pre @ v # post"
    using out(3) by (simp only: k c)
  then have "v = Some ''Ola''"
    using out(4,5) by (auto simp: Cons_eq_append_conv)
  with 1 2 3 k c out(1,2,6) show ?thesis
    by (simp add: example_merged_keys)
qed

section \<open>The merger: files without data\<close>

lemma is_no_data_value_error: "is_no_data ''Bank does not have category types (no data)''"
  by (simp add: is_no_data_def lower_def lower_char_def)

lemma is_no_data_empty_data_error: "is_no_data ''No columns to parse from file''"
  by (simp add: is_no_data_def lower_def lower_char_def)

lemma process_file_no_rows:
  assumes "(\<exists>df. read_csv f = ReadOk df \<and> rows df = [])
           \<or> read_csv f = ReadRaises ''No columns to parse from file''"
  shows "process_file read_csv (m, s) f = (m, s\<lparr>missing := missing s @ [f]\<rparr>)"
  using assms
  by (auto simp: process_file_def label_file_def is_empty_def record_failure_def
      is_no_data_value_error is_no_data_empty_data_error)

text \<open>The table never depends on the summary, and the lists of the summary only grow.\<close>

lemma process_file_fst:
  "fst (process_file read_csv (m, s) f) = fst (process_file read_csv (m, s') f)"
  by (simp add: process_file_def split: read_outcome.splits sum.splits prod.splits)

lemma process_file_merged:
  "merged s = merged s' \<Longrightarrow>
   merged (snd (process_file read_csv (m, s) f)) = merged (snd (process_file read_csv (m, s') f))"
  by (simp add: process_file_def record_failure_def split: read_outcome.splits sum.splits prod.splits)

lemma process_file_errors:
  "errors s = errors s' \<Longrightarrow>
   errors (snd (process_file read_csv (m, s) f)) = errors (snd (process_file read_csv (m, s') f))"
  by (simp add: process_file_def record_failure_def split: read_outcome.splits sum.splits prod.splits)

lemma process_file_missing_mono:
  "set (missing s) \<subseteq> set (missing (snd (process_file read_csv (m, s) f)))"
  by (auto simp: process_file_def record_failure_def split: read_outcome.splits sum.splits prod.splits)

lemma foldl_process_file_agree:
  "merged s = merged s' \<Longrightarrow> errors s = errors s' \<Longrightarrow>
   fst (foldl (process_file read_csv) (m, s) fs) = fst (foldl (process_file read_csv) (m, s') fs)
   \<and> merged (snd (foldl (process_file read_csv) (m, s) fs))
       = merged (snd (foldl (process_file read_csv) (m, s') fs))
   \<and> errors (snd (foldl (process_file read_csv) (m, s) fs))
       = errors (snd (foldl (process_file read_csv) (m, s') fs))"
proof (induction fs arbitrary: m s s')
  case Nil
  then show ?case by simp
next
  case (Cons f fs)
  obtain m1 s1 where 1: "process_file read_csv (m, s) f = (m1, s1)" by (cases "process_file read_csv (m, s) f")
  obtain m2 s2 where 2: "process_file read_csv (m, s') f = (m2, s2)" by (cases "process_file read_csv (m, s') f")
  have "m1 = m2" using process_file_fst [of read_csv m s f s'] 1 2 by simp
  moreover have "merged s1 = merged s2"
    using process_file_merged [OF Cons.prems(1), of read_csv m f] 1 2 by simp
  moreover have "errors s1 = errors s2"
    using process_file_errors [OF Cons.prems(2), of read_csv m f] 1 2 by simp
  ultimately show ?case
    using Cons.IH [of s1 s2 m1] 1 2 by simp
qed

lemma foldl_process_file_missing_mono:
  "set (missing s) \<subseteq> set (missing (snd (foldl (process_file read_csv) (m, s) fs)))"
proof (induction fs arbitrary: m s)
  case Nil
  then show ?case by simp
next
  case (Cons f fs)
  obtain m1 s1 where 1: "process_file read_csv (m, s) f = (m1, s1)" by (cases "process_file read_csv (m, s) f")
  have "set (missing s) \<subseteq> set (missing s1)"
    using process_file_missing_mono [of s read_csv m f] 1 by simp
  then show ?case using Cons.IH [of s1 m1] 1 by auto
qed

text \<open>
  C6: a file that yields no data row (a header without rows, or no content at all, for which
  \<open>read_csv\<close> raises "No columns to parse from file") only adds its name to the bank's
  \<open>missing\<close> list. The loop goes on: the merged table and the lists \<open>merged\<close> and
  \<open>errors\<close> at the end are those of the same file list without this file, and the name is in
  \<open>missing\<close> at the end. The merger returns its result in every case; nothing is raised.
\<close>

theorem no_data_file_is_skipped:
  assumes "(\<exists>df. read_csv f = ReadOk df \<and> rows df = [])
           \<or> read_csv f = ReadRaises ''No columns to parse from file''"
  shows "process_file read_csv (m, s) f = (m, s\<lparr>missing := missing s @ [f]\<rparr>)
    \<and> fst (process_csv_files_for_bank read_csv (pre @ f # post) s0)
        = fst (process_csv_files_for_bank read_csv (pre @ post) s0)
    \<and> merged (snd (process_csv_files_for_bank read_csv (pre @ f # post) s0))
        = merged (snd (process_csv_files_for_bank read_csv (pre @ post) s0))
    \<and> errors (snd (process_csv_files_for_bank read_csv (pre @ f # post) s0))
        = errors (snd (process_csv_files_for_bank read_csv (pre @ post) s0))
    \<and> f \<in> set (missing (snd (process_csv_files_for_bank read_csv (pre @ f # post) s0)))"
proof -
  obtain m1 s1 where 1: "foldl (process_file read_csv) (empty_frame, s0) pre = (m1, s1)"
    by (cases "foldl (process_file read_csv) (empty_frame, s0) pre")
  let ?s2 = "s1\<lparr>missing := missing s1 @ [f]\<rparr>"
  have step: "process_file read_csv (m1, s1) f = (m1, ?s2)"
    using process_file_no_rows [of read_csv f m1 s1] assms by blast
  have with_f: "process_csv_files_for_bank read_csv (pre @ f # post) s0
      = foldl (process_file read_csv) (m1, ?s2) post"
    by (simp add: process_csv_files_for_bank_def 1 step)
  have without_f: "process_csv_files_for_bank read_csv (pre @ post) s0
      = foldl (process_file read_csv) (m1, s1) post"
    by (simp add: process_csv_files_for_bank_def 1)
  have agree: "fst (foldl (process_file read_csv) (m1, ?s2) post)
        = fst (foldl (process_file read_csv) (m1, s1) post)
   \<and> merged (snd (foldl (process_file read_csv) (m1, ?s2) post))
       = merged (snd (foldl (process_file read_csv) (m1, s1) post))
   \<and> errors (snd (foldl (process_file read_csv) (m1, ?s2) post))
       = errors (snd (foldl (process_file read_csv) (m1, s1) post))"
    by (rule foldl_process_file_agree) simp_all
  have "f \<in> set (missing ?s2)" by simp
  then have mem: "f \<in> set (missing (snd (foldl (process_file read_csv) (m1, ?s2) post)))"
    using foldl_process_file_missing_mono [of ?s2 read_csv m1 post] by blast
  show ?thesis
    using process_file_no_rows [of read_csv f m s] assms agree mem
    by (simp only: with_f without_f simp_thms)
qed

theorem no_data_file_is_skipped_witness:
  "example_read_csv ''X.B1234.E.CSV'' = ReadOk file_header_only
   \<and> rows file_header_only = []
   \<and> fst (process_csv_files_for_bank example_read_csv
            ([''X.B1234.A.CSV''] @ ''X.B1234.E.CSV'' # [''X.B1234.B.CSV'']) empty_summary)
       = fst (process_csv_files_for_bank example_read_csv
            ([''X.B1234.A.CSV''] @ [''X.B1234.B.CSV'']) empty_summary)
   \<and> ''X.B1234.E.CSV'' \<in> set (missing (snd (process_csv_files_for_bank example_read_csv
            ([''X.B1234.A.CSV''] @ ''X.B1234.E.CSV'' # [''X.B1234.B.CSV'']) empty_summary)))
   \<and> process_file example_read_csv (file_retail, empty_summary) ''X.B1234.E.CSV''
       = (file_retail, empty_summary\<lparr>missing := [''X.B1234.E.CSV'']\<rparr>)"
proof -
  have r: "example_read_csv ''X.B1234.E.CSV'' = ReadOk file_header_only"
    by (simp add: example_read_csv_def)
  have e: "rows file_header_only = []" by (simp add: file_header_only_def)
  have h: "(\<exists>df. example_read_csv ''X.B1234.E.CSV'' = ReadOk df \<and> rows df = [])
           \<or> example_read_csv ''X.B1234.E.CSV'' = ReadRaises ''No columns to parse from file''"
    using r e by simp
  show ?thesis
    using no_data_file_is_skipped [of example_read_csv "''X.B1234.E.CSV''" file_retail
        empty_summary "[''X.B1234.A.CSV'']" "[''X.B1234.B.CSV'']" empty_summary] h r e
    by (simp add: empty_summary_def)
qed

section \<open>The merger: the columns and rows of the merged table\<close>






text \<open>
  What lines 87 to 89 do on a frame with rows, at least three columns and a label in the
  first row that is not the header of the third column: the third column goes, and the
  column of the label holds "J" in every row of the file.
\<close>

lemma label_file_sets_flag:
  assumes "rows df \<noteq> []" and "3 \<le> length (columns df)"
    and "hd (rows df) (columns df ! 2) = Some v" and "strip v \<noteq> columns df ! 2"
  shows "\<exists>df'. label_file df = Inr (strip v, df')
     \<and> columns df ! 2 \<notin> set (columns df')
     \<and> strip v \<in> set (columns df')
     \<and> length (rows df') = length (rows df)
     \<and> (\<forall>r \<in> set (rows df'). r (strip v) = Some ''J'' \<and> r (columns df ! 2) = None)"
proof -
  have ne: "\<not> is_empty df" using assms(1,2) by (auto simp: is_empty_def)
  have third: "columns (set_column (strip v) (Some ''J'') df) ! 2 = columns df ! 2"
    using assms(2) by (simp add: set_column_def nth_append)
  have "label_file df
      = Inr (strip v, drop_column (columns df ! 2) (set_column (strip v) (Some ''J'') df))"
    using ne assms(2,3) by (simp add: label_file_def Let_def third)
  then show ?thesis
    using assms(4) by (auto simp: drop_column_def set_column_def)
qed

text \<open>
  C3: the file \<open>file_loan\<close> has one data row, and its third column is headed \<open>LOAN\<close>, the
  category label of the row. The merger records the category as merged, but the table it
  returns has the customer's row and no column \<open>LOAN\<close>: line 88 writes "J" into the third
  column and line 89 drops it. Merged after another file of the same category, the row of
  this file holds "N" under \<open>LOAN\<close>.
\<close>

theorem label_equal_to_header_loses_flag:
  "columns (fst (process_csv_files_for_bank example_read_csv [''X.B1234.L.CSV''] empty_summary))
     = [''Kundenummer'', ''Navn'']
   \<and> merged (snd (process_csv_files_for_bank example_read_csv [''X.B1234.L.CSV''] empty_summary))
     = [''LOAN'']
   \<and> map (\<lambda>r. (r ''Kundenummer'', r ''LOAN''))
        (rows (fst (process_csv_files_for_bank example_read_csv [''X.B1234.L.CSV''] empty_summary)))
     = [(Some ''003'', None)]
   \<and> columns (fst (process_csv_files_for_bank example_read_csv
                     [''X.B1234.M.CSV'', ''X.B1234.L.CSV''] empty_summary))
     = [''Kundenummer'', ''Navn'', ''LOAN'']
   \<and> map (\<lambda>r. (r ''Kundenummer'', r ''LOAN''))
        (rows (fst (process_csv_files_for_bank example_read_csv
                     [''X.B1234.M.CSV'', ''X.B1234.L.CSV''] empty_summary)))
     = [(Some ''004'', Some ''J''), (Some ''003'', Some ''N'')]"
  by code_simp

section \<open>The order of the files\<close>





















section \<open>The dataset summarizer\<close>

text \<open>
  C9, as the code has it: a column is classified as dynamic exactly when each of its cells is
  NaN, "J" or "N" (only NaN is ignored; an empty string is a value); the static columns are the
  other columns, so the two lists share no column, together hold every column, and their
  lengths add up to the number of columns.
\<close>

theorem summarize_dataset_partition:
  "set (dynamic_cols (summarize_dataset df))
     = {col \<in> set (columns df). \<forall>r \<in> set (rows df). r col \<in> {None, Some ''J'', Some ''N''}}
   \<and> set (static_cols (summarize_dataset df))
     = set (columns df) - set (dynamic_cols (summarize_dataset df))
   \<and> set (dynamic_cols (summarize_dataset df)) \<union> set (static_cols (summarize_dataset df))
     = set (columns df)
   \<and> set (dynamic_cols (summarize_dataset df)) \<inter> set (static_cols (summarize_dataset df)) = {}
   \<and> length (dynamic_cols (summarize_dataset df)) + length (static_cols (summarize_dataset df))
     = length (columns df)"
proof -
  define p where
    "p = (\<lambda>col. list_all (\<lambda>v. v \<in> {Some ''J'', Some ''N''}) (dropna (column_of col (rows df))))"
  have d: "dynamic_cols (summarize_dataset df) = filter p (columns df)"
    by (simp add: summarize_dataset_def Let_def p_def)
  have s: "static_cols (summarize_dataset df) = filter (\<lambda>col. \<not> p col) (columns df)"
    by (simp add: summarize_dataset_def Let_def p_def cong: filter_cong)
  have pe: "p col \<longleftrightarrow> (\<forall>r \<in> set (rows df). r col \<in> {None, Some ''J'', Some ''N''})" for col
    unfolding p_def by (auto simp: list_all_iff dropna_def column_of_def)
  have l: "length (filter p (columns df)) + length (filter (\<lambda>col. \<not> p col) (columns df))
      = length (columns df)"
    by (rule sum_length_filter_compl)
  have 1: "set (filter p (columns df))
     = {col \<in> set (columns df). \<forall>r \<in> set (rows df). r col \<in> {None, Some ''J'', Some ''N''}}"
    by (simp only: set_filter pe)
  have 2: "set (filter (\<lambda>col. \<not> p col) (columns df))
     = set (columns df) - set (filter p (columns df))"
    by auto
  have 3: "set (filter p (columns df)) \<union> set (filter (\<lambda>col. \<not> p col) (columns df))
     = set (columns df)"
    by auto
  have 4: "set (filter p (columns df)) \<inter> set (filter (\<lambda>col. \<not> p col) (columns df)) = {}"
    by auto
  show ?thesis
    unfolding d s using 1 2 3 4 l by blast
qed

theorem summarize_dataset_partition_witness:
  "dynamic_cols (summarize_dataset example_table) = [''RETAIL'', ''SAVINGS'']
   \<and> static_cols (summarize_dataset example_table) = [''Kundenummer'', ''Navn'']
   \<and> set (dynamic_cols (summarize_dataset example_table))
       \<inter> set (static_cols (summarize_dataset example_table)) = {}
   \<and> multi_category (summarize_dataset example_table) = 1"
  using summarize_dataset_partition [of example_table]
  by (simp add: summarize_dataset_def example_table_def dropna_def column_of_def)

text \<open>
  Only NaN is ignored: the empty string, which the enricher writes for a customer without a
  match, is a value like any other and makes its column static.
\<close>

lemma summarize_dataset_empty_string_static:
  assumes "col \<in> set (columns df)" and "r \<in> set (rows df)" and "r col = Some []"
  shows "col \<in> set (static_cols (summarize_dataset df))"
proof -
  have "r col \<in> (\<lambda>r. r col) ` set (rows df)"
    using assms(2) by (rule imageI)
  then have m: "Some [] \<in> set (dropna (column_of col (rows df)))"
    by (simp add: assms(3) dropna_def column_of_def)
  have "\<not> list_all (\<lambda>v. v \<in> {Some ''J'', Some ''N''}) (dropna (column_of col (rows df)))"
  proof
    assume "list_all (\<lambda>v. v \<in> {Some ''J'', Some ''N''}) (dropna (column_of col (rows df)))"
    then have "Some [] \<in> {Some ''J'', Some ''N''}" using m unfolding list_all_iff by blast
    then show False by simp
  qed
  then have "col \<in> set (filter (\<lambda>c. c \<notin> set (filter
            (\<lambda>col. list_all (\<lambda>v. v \<in> {Some ''J'', Some ''N''}) (dropna (column_of col (rows df))))
            (columns df))) (columns df))"
    using assms(1) by simp
  then show ?thesis
    by (simp add: summarize_dataset_def Let_def)
qed

text \<open>
  C9 as stated fails on the table the BM flow summarizes when no customer has a match in the
  PAC export: every cell of the column \<open>AVTALE_IDs\<close> is the empty string, so all its values,
  the empty ones ignored, lie in "J", "N"; the summarizer classifies the column as static.
\<close>

theorem empty_string_column_counterexample:
  "(case enrich_with_pac_data example_table ''1234'' example_pac_other of
      Inl e \<Rightarrow> False
    | Inr (df, ev) \<Rightarrow>
        column_of ''AVTALE_IDs'' (rows df) = [Some [], Some []]
        \<and> ''AVTALE_IDs'' \<in> set (static_cols (summarize_dataset df))
        \<and> ''AVTALE_IDs'' \<notin> set (dynamic_cols (summarize_dataset df)))"
  by code_simp

section \<open>The enricher\<close>

text \<open>
  C8: when no row of the PAC export carries the bank identifier, the enricher returns the table
  it was given, unchanged, and logs the line that no PAC data was found; it raises nothing.
\<close>

theorem enrich_unknown_bank_unchanged:
  "bank_id \<notin> set (map (\<lambda>p. astype_str (BANK_ID p)) pac_data) \<Longrightarrow>
     enrich_with_pac_data df bank_id pac_data = Inr (df, NoPacData bank_id)"
  by (simp add: enrich_with_pac_data_def)

theorem enrich_unknown_bank_unchanged_witness:
  "''5678'' \<notin> set (map (\<lambda>p. astype_str (BANK_ID p)) example_pac)
   \<and> enrich_with_pac_data example_table ''5678'' example_pac
       = Inr (example_table, NoPacData ''5678'')"
  using enrich_unknown_bank_unchanged [of "''5678''" example_pac example_table]
  by (simp add: example_pac_def astype_str_def)

lemma map_of_lookup_None:
  "map_of (map (\<lambda>(k, g). (k, h k g)) kgs) x = None \<longleftrightarrow> x \<notin> fst ` set kgs"
  by (induction kgs) auto

lemma fst_pac_groups: "fst ` set (pac_groups rws) = foretak_key ` set rws"
  by (auto simp: pac_groups_def image_iff)

lemma avtale_lookup_None:
  "map_of (avtale_lookup rws) x = None \<longleftrightarrow> x \<notin> foretak_key ` set rws"
  unfolding avtale_lookup_def by (simp only: map_of_lookup_None fst_pac_groups)

lemma users_lookup_None:
  "map_of (users_lookup rws) x = None \<longleftrightarrow> x \<notin> foretak_key ` set rws"
  unfolding users_lookup_def by (simp only: map_of_lookup_None fst_pac_groups)

lemma map_fillna_unmatched:
  assumes "\<And>x. map_of d x = None \<longleftrightarrow> x \<notin> K" and "v \<notin> Some ` K"
  shows "map_fillna d v = Some []"
proof (cases v)
  case None
  then show ?thesis by (simp add: map_fillna_def)
next
  case (Some k)
  then have "k \<notin> K" using assms(2) by auto
  then have "map_of d k = None" using assms(1) by simp
  then show ?thesis using Some by (simp add: map_fillna_def)
qed

text \<open>
  C7: when the bank has rows in the PAC export, each row of the table whose
  \<open>Kundenummer\<close> is not the padded organization number of any of the bank's rows has the empty
  string, not NaN, in both new columns.
\<close>

theorem enrich_unmatched_empty_string:
  assumes "bank_id \<in> set (map (\<lambda>p. astype_str (BANK_ID p)) pac_data)"
    and "enrich_with_pac_data df bank_id pac_data = Inr (df', ev)"
    and "i < length (rows df)"
    and "(rows df ! i) ''Kundenummer'' \<notin> Some ` foretak_key ` set (pac_subset bank_id pac_data)"
  shows "length (rows df') = length (rows df)
    \<and> ''AVTALE_IDs'' \<in> set (columns df')
    \<and> ''Users_PERSONNR:BRUKERTYPE'' \<in> set (columns df')
    \<and> (rows df' ! i) ''AVTALE_IDs'' = Some []
    \<and> (rows df' ! i) ''Users_PERSONNR:BRUKERTYPE'' = Some []"
proof -
  let ?rws = "pac_subset bank_id pac_data"
  let ?k = "(rows df ! i) ''Kundenummer''"
  have a: "map_fillna (avtale_lookup ?rws) ?k = Some []"
    using assms(4) by (intro map_fillna_unmatched [where K = "foretak_key ` set ?rws"])
      (simp_all add: avtale_lookup_None)
  have u: "map_fillna (users_lookup ?rws) ?k = Some []"
    using assms(4) by (intro map_fillna_unmatched [where K = "foretak_key ` set ?rws"])
      (simp_all add: users_lookup_None)
  have df': "df' = assign_column ''Users_PERSONNR:BRUKERTYPE''
                     (\<lambda>r. map_fillna (users_lookup ?rws) (r ''Kundenummer''))
                  (assign_column ''AVTALE_IDs''
                     (\<lambda>r. map_fillna (avtale_lookup ?rws) (r ''Kundenummer'')) df)"
    using assms(1,2) by (auto simp: enrich_with_pac_data_def Let_def split: if_splits)
  show ?thesis
    using assms(3) a u by (simp add: df' assign_column_def)
qed

theorem enrich_unmatched_empty_string_witness:
  "''1234'' \<in> set (map (\<lambda>p. astype_str (BANK_ID p)) example_pac)
   \<and> (\<exists>df' ev. enrich_with_pac_data example_table ''1234'' example_pac = Inr (df', ev)
        \<and> (rows example_table ! 1) ''Kundenummer''
             \<notin> Some ` foretak_key ` set (pac_subset ''1234'' example_pac)
        \<and> (rows df' ! 0) ''AVTALE_IDs'' = Some ''A1''
        \<and> (rows df' ! 1) ''AVTALE_IDs'' = Some []
        \<and> (rows df' ! 1) ''Users_PERSONNR:BRUKERTYPE'' = Some [])"
proof -
  have b: "''1234'' \<in> set (map (\<lambda>p. astype_str (BANK_ID p)) example_pac)"
    by (simp add: example_pac_def astype_str_def)
  have s: "pac_subset ''1234'' example_pac = example_pac"
    by (simp add: pac_subset_def example_pac_def astype_str_def)
  have fk: "foretak_key ` set example_pac = {''00000000001''}"
    by (simp add: example_pac_def foretak_key_def astype_str_def zfill_def
        numeral_eq_Suc)
  obtain df' ev where e: "enrich_with_pac_data example_table ''1234'' example_pac = Inr (df', ev)"
    using b by (simp add: enrich_with_pac_data_def Let_def example_table_def)
  have n: "(rows example_table ! 1) ''Kundenummer''
             \<notin> Some ` foretak_key ` set (pac_subset ''1234'' example_pac)"
    by (simp add: s fk example_table_def)
  have i: "1 < length (rows example_table)" by (simp add: example_table_def)
  have av: "avtale_lookup example_pac = [(''00000000001'', ''A1'')]"
    by (simp add: avtale_lookup_def pac_groups_def example_pac_def foretak_key_def
        astype_str_def zfill_def numeral_eq_Suc)
  have m: "(rows df' ! 0) ''AVTALE_IDs'' = Some ''A1''"
    using e b
    by (auto simp: enrich_with_pac_data_def Let_def s av assign_column_def map_fillna_def
        example_table_def)
  from enrich_unmatched_empty_string [OF b e i n] m n b e show ?thesis by blast
qed

section \<open>The consistency check\<close>

lemma check_banks_ok:
  "check_banks ref rf m = Inr () \<longleftrightarrow> (\<forall>bf \<in> set m. shape_keys (snd bf) = rf)"
  by (induction ref rf m rule: check_banks.induct) simp_all

lemma check_banks_first_mismatch:
  "\<forall>bf \<in> set pre. shape_keys (snd bf) = rf \<Longrightarrow> shape_keys files \<noteq> rf \<Longrightarrow>
     check_banks ref rf (pre @ (bank_id, files) # post) = Inl (BankFileInconsistency bank_id ref)"
  by (induction ref rf pre rule: check_banks.induct) simp_all

text \<open>
  C5: on a map with at least one bank the check succeeds exactly when the set of masked file
  names of every bank equals that of the reference, the first bank; it succeeds on a map with
  a single bank; and when a bank differs from the reference while all banks before it agree,
  the check raises the error that names this bank and the reference, whatever banks follow.
\<close>

theorem check_bank_file_consistency_iff:
  "(bank_file_map \<noteq> [] \<longrightarrow>
      (check_bank_file_consistency bank_file_map = Inr ()
         \<longleftrightarrow> (\<forall>bf \<in> set bank_file_map.
                shape_keys (snd bf) = shape_keys (snd (hd bank_file_map)))))
   \<and> check_bank_file_consistency [(bank_id, files)] = Inr ()
   \<and> ((\<forall>bf \<in> set pre. shape_keys (snd bf) = shape_keys reference_files)
        \<and> shape_keys files \<noteq> shape_keys reference_files \<longrightarrow>
      check_bank_file_consistency
        ((reference_bank, reference_files) # pre @ (bank_id, files) # post)
      = Inl (BankFileInconsistency bank_id reference_bank))"
proof (intro conjI impI)
  assume "bank_file_map \<noteq> []"
  then obtain rb rfs rest where m: "bank_file_map = (rb, rfs) # rest"
    by (cases bank_file_map) auto
  show "check_bank_file_consistency bank_file_map = Inr ()
         \<longleftrightarrow> (\<forall>bf \<in> set bank_file_map.
                shape_keys (snd bf) = shape_keys (snd (hd bank_file_map)))"
    unfolding m by (simp add: check_banks_ok)
next
  show "check_bank_file_consistency [(bank_id, files)] = Inr ()" by simp
next
  assume a: "(\<forall>bf \<in> set pre. shape_keys (snd bf) = shape_keys reference_files)
        \<and> shape_keys files \<noteq> shape_keys reference_files"
  then have "\<forall>bf \<in> set ((reference_bank, reference_files) # pre).
      shape_keys (snd bf) = shape_keys reference_files"
    by simp
  from check_banks_first_mismatch [OF this, of files reference_bank bank_id post] a
  show "check_bank_file_consistency
        ((reference_bank, reference_files) # pre @ (bank_id, files) # post)
      = Inl (BankFileInconsistency bank_id reference_bank)"
    by simp
qed

theorem check_bank_file_consistency_iff_witness:
  "example_bank_files \<noteq> []
   \<and> check_bank_file_consistency example_bank_files = Inr ()
   \<and> shape_keys (snd (example_bank_files ! 1)) = shape_keys (snd (hd example_bank_files))
   \<and> check_bank_file_consistency [(''1234'', [''X.B1234.A.CSV''])] = Inr ()
   \<and> shape_keys [''X.B5678.A.CSV''] = shape_keys [''X.B1234.A.CSV'']
   \<and> shape_keys [''X.B9999.C.CSV''] \<noteq> shape_keys [''X.B1234.A.CSV'']
   \<and> check_bank_file_consistency
        ((''1234'', [''X.B1234.A.CSV'']) # [(''5678'', [''X.B5678.A.CSV''])]
           @ (''9999'', [''X.B9999.C.CSV'']) # [(''4321'', [''Y.B4321.A.CSV''])])
      = Inl (BankFileInconsistency ''9999'' ''1234'')"
  using check_bank_file_consistency_iff [of example_bank_files "''1234''" "[''X.B1234.A.CSV'']"
      "[(''5678'', [''X.B5678.A.CSV''])]" "[''X.B1234.A.CSV'']" "''1234''"
      "[(''4321'', [''Y.B4321.A.CSV''])]"]
    check_bank_file_consistency_iff [of example_bank_files "''9999''" "[''X.B9999.C.CSV'']"
      "[(''5678'', [''X.B5678.A.CSV''])]" "[''X.B1234.A.CSV'']" "''1234''"
      "[(''4321'', [''Y.B4321.A.CSV''])]"]
  by (simp add: example_bank_files_def shape_keys_def is_digit_def insert_commute)

section \<open>File selection of the flows\<close>

lemma contains_iff: "contains sub s \<longleftrightarrow> (\<exists>pre post. s = pre @ sub @ post)"
proof (induction s)
  case Nil
  then show ?case by auto
next
  case (Cons c cs)
  show ?case
  proof
    assume "contains sub (c # cs)"
    then consider "take (length sub) (c # cs) = sub" | "contains sub cs" by auto
    then show "\<exists>pre post. c # cs = pre @ sub @ post"
    proof cases
      case 1
      then have "c # cs = [] @ sub @ drop (length sub) (c # cs)"
        by (metis append_Nil append_take_drop_id)
      then show ?thesis by blast
    next
      case 2
      then obtain pre post where "cs = pre @ sub @ post" using Cons.IH by auto
      then have "c # cs = (c # pre) @ sub @ post" by simp
      then show ?thesis by blast
    qed
  next
    assume "\<exists>pre post. c # cs = pre @ sub @ post"
    then obtain pre post where e: "c # cs = pre @ sub @ post" by auto
    show "contains sub (c # cs)"
    proof (cases pre)
      case Nil
      then have "take (length sub) (c # cs) = sub" using e by simp
      then show ?thesis by simp
    next
      case (Cons p ps)
      then have "cs = ps @ sub @ post" using e by simp
      then have "contains sub cs" using Cons.IH by blast
      then show ?thesis by simp
    qed
  qed
qed

lemma upper_append: "upper (a @ b) = upper a @ upper b"
  by (simp add: upper_def)

lemma upper_char_values:
  "upper_char CHR ''O'' = ''O''" "upper_char CHR ''o'' = ''O''"
  "upper_char CHR ''B'' = ''B''" "upper_char CHR ''b'' = ''B''"
  "upper_char CHR ''S'' = ''S''" "upper_char CHR ''s'' = ''S''"
  "upper_char CHR 0xDF = ''SS''"
  by code_simp+

lemma upper_char_O: "x \<in> {CHR ''O'', CHR ''o''} \<Longrightarrow> upper_char x = ''O''"
  using upper_char_values(1,2) by blast

lemma upper_char_B: "y \<in> {CHR ''B'', CHR ''b''} \<Longrightarrow> upper_char y = ''B''"
  using upper_char_values(3,4) by blast

lemma upper_char_S:
  "z \<in> {CHR ''S'', CHR ''s'', CHR 0xDF} \<Longrightarrow> \<exists>rest. upper_char z = CHR ''S'' # rest"
  using upper_char_values(5,6,7) by blast

text \<open>
  A name with the letters o, b and s in a row, each in upper or lower case (the sharp s, whose
  capital is SS, counts as an s), has \<open>OBS\<close> in its upper-cased form.
\<close>

lemma contains_OBS_upper:
  assumes "f = pre @ [x, y, z] @ post" and "x \<in> {CHR ''O'', CHR ''o''}"
    and "y \<in> {CHR ''B'', CHR ''b''}" and "z \<in> {CHR ''S'', CHR ''s'', CHR 0xDF}"
  shows "contains ''OBS'' (upper f)"
proof -
  obtain rest where z: "upper_char z = CHR ''S'' # rest"
    using upper_char_S [OF assms(4)] by blast
  have "upper f = upper pre @ upper_char x @ upper_char y @ upper_char z @ upper post"
    by (simp add: assms(1) upper_def)
  then have "upper f = upper pre @ ''OBS'' @ (rest @ upper post)"
    by (simp add: upper_char_O [OF assms(2)] upper_char_B [OF assms(3)] z)
  then show ?thesis
    unfolding contains_iff by blast
qed

text \<open>
  C10: every file in the file list of the BM flow is a file of the bank that ends in
  \<open>.CSV.BM\<close> and does not have the letters o, b, s in a row, in any mix of upper and lower
  case: a file marked OBS is never in the list.
\<close>

theorem bm_flow_excludes_obs:
  assumes "f \<in> set (bm_files bank_files bank_id)"
  shows "f \<in> set (case map_of bank_files bank_id of None \<Rightarrow> [] | Some fs \<Rightarrow> fs)
     \<and> endswith f ''.CSV.BM''
     \<and> \<not> (\<exists>pre x y z post. f = pre @ [x, y, z] @ post \<and> x \<in> {CHR ''O'', CHR ''o''}
            \<and> y \<in> {CHR ''B'', CHR ''b''} \<and> z \<in> {CHR ''S'', CHR ''s'', CHR 0xDF})"
proof -
  have m: "f \<in> set (case map_of bank_files bank_id of None \<Rightarrow> [] | Some fs \<Rightarrow> fs)"
    and e: "endswith f ''.CSV.BM''" and n: "\<not> contains ''OBS'' (upper f)"
    using assms by (simp_all add: bm_files_def list_bank_files_by_type_def)
  have "\<not> (\<exists>pre x y z post. f = pre @ [x, y, z] @ post \<and> x \<in> {CHR ''O'', CHR ''o''}
            \<and> y \<in> {CHR ''B'', CHR ''b''} \<and> z \<in> {CHR ''S'', CHR ''s'', CHR 0xDF})"
    using n contains_OBS_upper by blast
  with m e show ?thesis by blast
qed

theorem bm_flow_excludes_obs_witness:
  "bm_files example_bank_files ''1234'' = [''X.B1234.A.CSV.BM'']
   \<and> ''X.B1234.A.CSV.BM'' \<in> set (bm_files example_bank_files ''1234'')
   \<and> endswith ''X.B1234.A.CSV.BM'' ''.CSV.BM''
   \<and> ''X.B1234.obs.CSV.BM'' \<notin> set (bm_files example_bank_files ''1234'')
   \<and> ''X.B1234.oB'' @ [CHR 0xDF] @ ''.CSV.BM'' \<notin> set (bm_files example_bank_files ''1234'')"
proof -
  have l: "bm_files example_bank_files ''1234'' = [''X.B1234.A.CSV.BM'']"
    by code_simp
  then have "''X.B1234.A.CSV.BM'' \<in> set (bm_files example_bank_files ''1234'')" by simp
  from bm_flow_excludes_obs [OF this] l show ?thesis by simp
qed

end
